theory Spec2Isabelle
  imports Main
begin

section \<open>JavaScript values that flow through the countdown timer\<close>

text \<open>
  The decomposition \<open>formatDiff\<close> returns six values that went through \<open>pad\<close>: each is
  either a number or, when \<open>padValues\<close> is set and the number is below ten, the string made
  of the character 0 followed by the number. Both kinds reach the comparisons of
  \<open>updateTime\<close> and \<open>updateDisplay\<close>, so both are modelled. Timestamps, differences and
  years are integers (they come from \<open>Date.getTime\<close> and \<open>Date.getFullYear\<close>).
\<close>

datatype jsval = Num int | Str string

text \<open>Decimal rendering of a number, as a template literal renders it.\<close>

fun show_nat :: "nat \<Rightarrow> string" where
  "show_nat n =
     (if n < 10 then [''0123456789'' ! n]
      else show_nat (n div 10) @ [''0123456789'' ! (n mod 10)])"

declare show_nat.simps [simp del]

definition show_int :: "int \<Rightarrow> string" where
  "show_int n = (if n < 0 then CHR ''-'' # show_nat (nat (- n)) else show_nat (nat n))"

text \<open>\<open>`${ value }`\<close>: a string stays as it is, a number is rendered in decimal.\<close>

fun to_string :: "jsval \<Rightarrow> string" where
  "to_string (Num n) = show_int n"
| "to_string (Str s) = s"

definition is_digit :: "char \<Rightarrow> bool" where
  "is_digit c = (48 \<le> (of_char c :: nat) \<and> (of_char c :: nat) \<le> 57)"

definition digits_value :: "string \<Rightarrow> nat" where
  "digits_value s = foldl (\<lambda>acc c. 10 * acc + ((of_char c :: nat) - 48)) 0 s"

text \<open>
  ToNumber, the conversion the relational operators apply to an operand that is compared
  with a number; \<open>None\<close> is NaN. The only strings that reach it are those built by \<open>pad\<close>
  (the character 0 followed by the decimal rendering of a number below ten): a string of
  decimal digits is that number, and a string with any other character in it (the minus
  sign of a negative number) is NaN.
\<close>

fun to_number :: "jsval \<Rightarrow> int option" where
  "to_number (Num n) = Some n"
| "to_number (Str s) = (if s \<noteq> [] \<and> list_all is_digit s then Some (int (digits_value s)) else None)"

text \<open>\<open>a < b\<close> with a number on the left: false when the right operand is NaN.\<close>

definition js_lt :: "int \<Rightarrow> jsval \<Rightarrow> bool" where
  "js_lt a v = (case to_number v of None \<Rightarrow> False | Some b \<Rightarrow> a < b)"

text \<open>\<open>a === b\<close> with a number on the left: a string is never strictly equal to a number.\<close>

fun js_strict_eq :: "int \<Rightarrow> jsval \<Rightarrow> bool" where
  "js_strict_eq a (Num b) = (a = b)"
| "js_strict_eq a (Str s) = False"

text \<open>Truthiness: zero and the empty string are falsy.\<close>

fun truthy :: "jsval \<Rightarrow> bool" where
  "truthy (Num n) = (n \<noteq> 0)"
| "truthy (Str s) = (s \<noteq> [])"

text \<open>
  \<open>parseInt\<close>, used for the payload of \<open>onTick\<close>; \<open>None\<close> is NaN. A number is an integer
  here and comes back unchanged; of a string built by \<open>pad\<close> the leading run of digits is
  read.
\<close>

fun parseInt :: "jsval \<Rightarrow> int option" where
  "parseInt (Num n) = Some n"
| "parseInt (Str s) =
     (let ds = takeWhile is_digit s in if ds = [] then None else Some (int (digits_value ds)))"

section \<open>The decomposition: pad, isLeapYear, formatDiff\<close>

text \<open>
  \<open>pad\<close> (source lines 443-449). The first argument is \<open>this.settings.padValues\<close>.
\<close>

definition pad :: "bool \<Rightarrow> int \<Rightarrow> jsval" where
  "pad padValues n =
     (if padValues then (if 10 > n then Str (CHR ''0'' # show_int n) else Num n)
      else Num n)"

text \<open>
  The remainder operator of JavaScript truncates towards zero: the result has the sign of
  the dividend (and \<open>-0 === 0\<close>).
\<close>

definition js_rem :: "int \<Rightarrow> int \<Rightarrow> int" where
  "js_rem a b = sgn a * (\<bar>a\<bar> mod \<bar>b\<bar>)"

text \<open>\<open>isLeapYear\<close> (source lines 456-458).\<close>

definition isLeapYear :: "int \<Rightarrow> bool" where
  "isLeapYear year = (if 0 = js_rem year 100 then 0 = js_rem year 400 else 0 = js_rem year 4)"

text \<open>
  The year loop of \<open>formatDiff\<close> (source lines 381-397). The loop variables are \<open>years\<close>,
  \<open>days\<close> and \<open>yearToCheck\<close>; \<open>checkYear\<close> is always \<open>yearToCheck !== finalYear\<close> when the
  guard is read, so it is written out in the guard. The loop returns \<open>years\<close> and \<open>days\<close>.
\<close>

function yearLoop :: "bool \<Rightarrow> int \<Rightarrow> int \<Rightarrow> int \<Rightarrow> int \<Rightarrow> int \<times> int" where
  "yearLoop isNegative finalYear years days yearToCheck =
     (if yearToCheck \<noteq> finalYear \<and> 365 \<le> days
      then yearLoop isNegative finalYear (years + 1)
             (if isLeapYear yearToCheck then days - 366 else days - 365)
             (if isNegative then yearToCheck - 1 else yearToCheck + 1)
      else (years, days))"
  by pat_completeness auto
termination
  by (relation "measure (\<lambda>(isNegative, finalYear, years, days, yearToCheck). nat days)") auto

declare yearLoop.simps [simp del]

text \<open>
  The same loop with no termination argument built in: \<open>None\<close> stands for a loop that
  never returns.
\<close>

partial_function (option) yearLoop_partial ::
  "bool \<Rightarrow> int \<Rightarrow> int \<Rightarrow> int \<Rightarrow> int \<Rightarrow> (int \<times> int) option" where
  "yearLoop_partial isNegative finalYear years days yearToCheck =
     (if yearToCheck \<noteq> finalYear \<and> 365 \<le> days
      then yearLoop_partial isNegative finalYear (years + 1)
             (if isLeapYear yearToCheck then days - 366 else days - 365)
             (if isNegative then yearToCheck - 1 else yearToCheck + 1)
      else Some (years, days))"

text \<open>The week loop of \<open>formatDiff\<close> (source lines 403-415); it returns years, weeks, days.\<close>

function weekLoop :: "int \<Rightarrow> int \<Rightarrow> int \<Rightarrow> int \<times> int \<times> int" where
  "weekLoop years weeks days =
     (if 7 \<le> days
      then (if 52 \<le> weeks + 1 then weekLoop (years + 1) 0 (days - 7)
            else weekLoop years (weeks + 1) (days - 7))
      else (years, weeks, days))"
  by pat_completeness auto
termination
  by (relation "measure (\<lambda>(years, weeks, days). nat days)") auto

declare weekLoop.simps [simp del]

text \<open>
  \<open>formatDiff\<close> (source lines 359-418). \<open>nowYear\<close> is \<open>new Date().getFullYear()\<close> and
  \<open>finalYear\<close> is \<open>new Date( time ).getFullYear()\<close>: the two calendar years come from the
  host and are taken as they are. \<open>Math.floor( a % b / c )\<close> on non-negative integers is
  \<open>a mod b div c\<close>.
\<close>

definition msPerSecond :: int where "msPerSecond = 1000"
definition msPerMinute :: int where "msPerMinute = 60 * msPerSecond"
definition msPerHour :: int where "msPerHour = 60 * msPerMinute"
definition msPerDay :: int where "msPerDay = 24 * msPerHour"

definition formatDiff :: "bool \<Rightarrow> int \<Rightarrow> int \<Rightarrow> int \<Rightarrow> jsval list" where
  "formatDiff padValues nowYear finalYear milliseconds =
     (let isNegative = (0 > milliseconds);
          hours = \<bar>milliseconds\<bar> mod msPerDay div msPerHour;
          minutes = \<bar>milliseconds\<bar> mod msPerHour div msPerMinute;
          seconds = \<bar>milliseconds\<bar> mod msPerMinute div msPerSecond;
          days0 = \<bar>milliseconds\<bar> div msPerDay;
          (years1, days1) = yearLoop isNegative finalYear 0 days0 nowYear;
          (years, weeks, days) = weekLoop years1 0 days1
      in [pad padValues years, pad padValues weeks, pad padValues days,
          pad padValues hours, pad padValues minutes, pad padValues seconds])"

section \<open>Settings and the state of one timer\<close>

text \<open>
  \<open>this.settings\<close> (source lines 21-62). A hook is modelled by whether a function was
  supplied for it; its invocations are recorded in the state.
\<close>

record label =
  allowed :: bool
  singular :: string
  plural :: string

record settings =
  onCreate :: bool
  onEnd :: bool
  onTick :: bool
  compact :: bool
  allowNegative :: bool
  padValues :: bool
  separator :: string
  showZeroes :: bool
  years :: label
  weeks :: label
  days :: label
  hours :: label
  minutes :: label
  seconds :: label

definition defaults :: settings where
  "defaults =
     \<lparr>onCreate = False, onEnd = False, onTick = False, compact = False,
      allowNegative = False, padValues = False, separator = '', '', showZeroes = False,
      years = \<lparr>allowed = True, singular = ''year'', plural = ''years''\<rparr>,
      weeks = \<lparr>allowed = True, singular = ''week'', plural = ''weeks''\<rparr>,
      days = \<lparr>allowed = True, singular = ''day'', plural = ''days''\<rparr>,
      hours = \<lparr>allowed = True, singular = ''hour'', plural = ''hours''\<rparr>,
      minutes = \<lparr>allowed = True, singular = ''minute'', plural = ''minutes''\<rparr>,
      seconds = \<lparr>allowed = True, singular = ''second'', plural = ''seconds''\<rparr>\<rparr>"

text \<open>
  The six interval elements are spans, identified by their position in the array
  \<open>intervals\<close> (0 is years, 5 is seconds). The child nodes of the timer element are
  interval spans and the text nodes that hold the separator.
\<close>

record span =
  className :: string
  aria_label :: string
  aria_hidden :: "string option"
  textContent :: string

datatype node = Interval nat | TextNode string

text \<open>
  The binding \<open>const repeat\<close> of \<open>startTimer\<close>: it exists from the start of the function
  body and is initialised only when its declaration (source line 350) is executed. Reading
  it before that raises a ReferenceError.
\<close>

datatype binding = Uninitialized | Initialized nat

datatype error = ReferenceError

datatype console_message = TimeNotFound

text \<open>
  A recorded hook invocation: \<open>onCreate\<close> and \<open>onEnd\<close> with the field \<open>time\<close> of their
  argument, \<open>onTick\<close> with \<open>time\<close>, \<open>diff\<close>, \<open>isNegative\<close> and the six parsed unit values.
\<close>

datatype hook_call = OnCreate int | OnTick int int bool "int option list" | OnEnd int

text \<open>
  Everything one timer reads and writes: the child nodes of the timer element in document
  order, the six spans, the attribute \<open>aria-live\<close> of the timer element, the binding
  \<open>repeat\<close>, the handles of the intervals that the window has scheduled, the hook
  invocations and the errors written to the console, both oldest first. The attributes
  that \<open>createTimer\<close> sets once on the timer element (class, role, tabindex, aria-label,
  aria-atomic) are read nowhere else and are left out.
\<close>

record timer =
  children :: "node list"
  intervals :: "span list"
  aria_live :: "string option"
  repeat :: binding
  active :: "nat list"
  calls :: "hook_call list"
  console :: "console_message list"

text \<open>
  What the host returns during one run of \<open>updateTime\<close>: \<open>new Date().getTime()\<close> (source
  line 230) and the two calendar years that \<open>formatDiff\<close> asks for.
\<close>

record reading =
  now_ms :: int
  now_year :: int
  final_year :: int

subsection \<open>Operations of the document on the timer element\<close>

fun index_of :: "node \<Rightarrow> node list \<Rightarrow> nat option" where
  "index_of x [] = None"
| "index_of x (y # ys) = (if x = y then Some 0 else map_option Suc (index_of x ys))"

text \<open>\<open>timer.contains( intervals[index] )\<close>.\<close>

definition contains :: "timer \<Rightarrow> nat \<Rightarrow> bool" where
  "contains t index = (Interval index \<in> set (children t))"

text \<open>Removing the child node at a position of the child list.\<close>

definition removeAt :: "nat \<Rightarrow> timer \<Rightarrow> timer" where
  "removeAt p t = t\<lparr>children := take p (children t) @ drop (Suc p) (children t)\<rparr>"

text \<open>
  The positions of \<open>intervals[index].nextSibling\<close> and \<open>.previousSibling\<close>; \<open>None\<close> is
  null. A span that is not in the timer has no parent and so no siblings.
\<close>

definition nextSibling :: "timer \<Rightarrow> nat \<Rightarrow> nat option" where
  "nextSibling t index =
     (case index_of (Interval index) (children t) of
        None \<Rightarrow> None
      | Some p \<Rightarrow> if Suc p < length (children t) then Some (Suc p) else None)"

definition previousSibling :: "timer \<Rightarrow> nat \<Rightarrow> nat option" where
  "previousSibling t index =
     (case index_of (Interval index) (children t) of
        None \<Rightarrow> None
      | Some p \<Rightarrow> if 0 < p then Some (p - 1) else None)"

text \<open>\<open>timer.removeChild( intervals[index] )\<close>, called only when the timer contains it.\<close>

definition removeChild :: "nat \<Rightarrow> timer \<Rightarrow> timer" where
  "removeChild index t =
     (case index_of (Interval index) (children t) of None \<Rightarrow> t | Some p \<Rightarrow> removeAt p t)"

definition appendChild :: "nat \<Rightarrow> timer \<Rightarrow> timer" where
  "appendChild index t = t\<lparr>children := children t @ [Interval index]\<rparr>"

text \<open>\<open>intervals[index].setAttribute( 'aria-hidden', v )\<close>.\<close>

definition set_aria_hidden :: "nat \<Rightarrow> string \<Rightarrow> timer \<Rightarrow> timer" where
  "set_aria_hidden index v t =
     t\<lparr>intervals := (intervals t)[index := (intervals t ! index)\<lparr>aria_hidden := Some v\<rparr>]\<rparr>"

text \<open>\<open>intervals[index].classList.contains( 'seconds' )\<close>: each span has one class.\<close>

definition has_class_seconds :: "timer \<Rightarrow> nat \<Rightarrow> bool" where
  "has_class_seconds t index = (className (intervals t ! index) = ''seconds'')"

section \<open>updateDisplay and updateTime\<close>

text \<open>
  \<open>updateDisplay\<close> (source lines 428-436): \<open>index\<close> is the position of \<open>interval\<close> in the
  array of spans, \<open>l\<close> is the parameter \<open>label\<close>.
\<close>

definition updateDisplay :: "nat \<Rightarrow> jsval \<Rightarrow> label \<Rightarrow> timer \<Rightarrow> timer" where
  "updateDisplay index v l t =
     (if contains t index then
        (let units = (if js_lt 1 v \<or> js_strict_eq 0 v then plural l else singular l);
             text = to_string v @ '' '' @ units
         in t\<lparr>intervals := (intervals t)[index :=
                 (intervals t ! index)\<lparr>aria_label := text, textContent := text\<rparr>]\<rparr>)
      else t)"

text \<open>
  The callback handed to \<open>parsedDiff.find\<close> (source lines 238-256). It works on the
  variable \<open>highestNonzero\<close> (\<open>None\<close> is undefined) and on the timer, and returns
  \<open>remaining\<close> in its first branch and nothing (\<open>None\<close>, undefined) otherwise.
\<close>

definition scan_callback ::
  "settings \<Rightarrow> jsval \<Rightarrow> nat \<Rightarrow> nat option \<times> timer \<Rightarrow> jsval option \<times> nat option \<times> timer" where
  "scan_callback S remaining index acc =
     (case acc of (highestNonzero, t) \<Rightarrow>
        if js_lt 0 remaining then (Some remaining, Some index, t)
        else if highestNonzero = None \<and> \<not> has_class_seconds t index then
          (let t1 = set_aria_hidden index ''true'' t;
               t2 = (if \<not> showZeroes S \<and> contains t1 index then
                       removeChild index
                         (case nextSibling t1 index of Some p \<Rightarrow> removeAt p t1 | None \<Rightarrow> t1)
                     else t1)
           in (None, highestNonzero, t2))
        else (None, highestNonzero, t))"

text \<open>
  \<open>Array.prototype.find\<close> with that callback: the elements are visited in order, with
  their index, until the callback returns a truthy value.
\<close>

fun find_scan ::
  "settings \<Rightarrow> jsval list \<Rightarrow> nat \<Rightarrow> nat option \<times> timer \<Rightarrow> nat option \<times> timer" where
  "find_scan S [] index acc = acc"
| "find_scan S (remaining # rest) index acc =
     (case scan_callback S remaining index acc of
        (returned, acc') \<Rightarrow>
          if (case returned of Some v \<Rightarrow> truthy v | None \<Rightarrow> False) then acc'
          else find_scan S rest (Suc index) acc')"

text \<open>The callback handed to \<open>intervals.forEach\<close> (source lines 275-290).\<close>

definition forEach_callback :: "settings \<Rightarrow> nat \<Rightarrow> nat \<Rightarrow> timer \<Rightarrow> timer" where
  "forEach_callback S highestNonzero index t =
     (let t1 = (if compact S then
                  (case previousSibling t index of Some p \<Rightarrow> removeAt p t | None \<Rightarrow> t)
                else t)
      in if highestNonzero = index then
           (if \<not> contains t1 index then appendChild index t1 else t1)
         else if compact S \<and> contains t1 index then removeChild index t1
         else t1)"

text \<open>
  \<open>updateTime\<close> (source lines 228-346), the closure of \<open>startTimer\<close> over \<open>timer\<close>,
  \<open>time\<close>, \<open>intervals\<close> and the binding \<open>repeat\<close>. It either returns (\<open>Inr\<close>, with the
  state it leaves) or raises (\<open>Inl\<close>, with the error and the state at that moment). Its
  body is written in the order of the source, one definition for each block.
\<close>

text \<open>Source lines 258-270: the live region and the seconds span.\<close>

definition live_region :: "jsval list \<Rightarrow> nat option \<Rightarrow> timer \<Rightarrow> timer" where
  "live_region parsedDiff highestNonzero t =
     (if highestNonzero = Some (length (intervals t) - 1) then
        set_aria_hidden (length (intervals t) - 1) ''false'' (t\<lparr>aria_live := Some ''polite''\<rparr>)
      else if js_strict_eq 0 (parsedDiff ! 5) then t\<lparr>aria_live := Some ''polite''\<rparr>
      else t\<lparr>aria_live := Some ''off''\<rparr>)"

text \<open>Source lines 272-291: \<open>intervals.forEach\<close>, run when \<open>highestNonzero\<close> is defined.\<close>

definition forEach_intervals :: "settings \<Rightarrow> nat option \<Rightarrow> timer \<Rightarrow> timer" where
  "forEach_intervals S highestNonzero t =
     (case highestNonzero of
        None \<Rightarrow> t
      | Some hn \<Rightarrow> foldl (\<lambda>t' index. forEach_callback S hn index t') t
                    [0 ..< length (intervals t)])"

text \<open>
  Source lines 295-318, the branch taken when \<open>0 >= diff\<close> and negative values are not
  allowed: every unit shows 0, the interval is cleared if \<open>repeat\<close> is truthy, \<open>onEnd\<close> is
  called.
\<close>

definition show_zero_and_stop :: "settings \<Rightarrow> int \<Rightarrow> timer \<Rightarrow> error \<times> timer + timer" where
  "show_zero_and_stop S time t =
     (let t4 = updateDisplay 5 (Num 0) (seconds S)
                (updateDisplay 4 (Num 0) (minutes S)
                  (updateDisplay 3 (Num 0) (hours S)
                    (updateDisplay 2 (Num 0) (days S)
                      (updateDisplay 1 (Num 0) (weeks S)
                        (updateDisplay 0 (Num 0) (years S) t)))))
      in case repeat t4 of
           Uninitialized \<Rightarrow> Inl (ReferenceError, t4)
         | Initialized handle \<Rightarrow>
             (let t5 = (if handle \<noteq> 0 then t4\<lparr>active := removeAll handle (active t4)\<rparr>
                        else t4);
                  t6 = (if onEnd S then t5\<lparr>calls := calls t5 @ [OnEnd time]\<rparr> else t5)
              in Inr t6))"

text \<open>Source lines 321-345: the six values are displayed and \<open>onTick\<close> is called.\<close>

definition show_remaining ::
  "settings \<Rightarrow> int \<Rightarrow> int \<Rightarrow> bool \<Rightarrow> jsval list \<Rightarrow> timer \<Rightarrow> timer" where
  "show_remaining S time diff isNegative parsedDiff t =
     (let t4 = updateDisplay 5 (parsedDiff ! 5) (seconds S)
                (updateDisplay 4 (parsedDiff ! 4) (minutes S)
                  (updateDisplay 3 (parsedDiff ! 3) (hours S)
                    (updateDisplay 2 (parsedDiff ! 2) (days S)
                      (updateDisplay 1 (parsedDiff ! 1) (weeks S)
                        (updateDisplay 0 (parsedDiff ! 0) (years S) t)))))
      in if onTick S then
           t4\<lparr>calls := calls t4 @ [OnTick time diff isNegative (map parseInt parsedDiff)]\<rparr>
         else t4)"

definition updateTime :: "settings \<Rightarrow> int \<Rightarrow> reading \<Rightarrow> timer \<Rightarrow> error \<times> timer + timer" where
  "updateTime S time env t =
     (let now = now_ms env;
          diff = time - now;
          isNegative = (0 > diff);
          parsedDiff = formatDiff (padValues S) (now_year env) (final_year env) diff;
          (highestNonzero, t1) = find_scan S parsedDiff 0 (None, t);
          t2 = live_region parsedDiff highestNonzero t1;
          t3 = forEach_intervals S highestNonzero t2
      in if 0 \<ge> diff \<and> \<not> allowNegative S then show_zero_and_stop S time t3
         else Inr (show_remaining S time diff isNegative parsedDiff t3))"

section \<open>startTimer, the interval, createElements, createTimer\<close>

text \<open>
  \<open>startTimer\<close> (source lines 221-351): the first \<open>updateTime()\<close> runs while \<open>repeat\<close> is
  not yet initialised; if it returns, \<open>window.setInterval\<close> schedules the interval and its
  handle (\<open>handle\<close>, chosen by the host) initialises \<open>repeat\<close>. An error raised by the first
  \<open>updateTime()\<close> leaves \<open>startTimer\<close> before line 350.
\<close>

definition startTimer ::
  "settings \<Rightarrow> int \<Rightarrow> nat \<Rightarrow> reading \<Rightarrow> timer \<Rightarrow> error \<times> timer + timer" where
  "startTimer S time handle env t =
     (case updateTime S time env (t\<lparr>repeat := Uninitialized\<rparr>) of
        Inl e \<Rightarrow> Inl e
      | Inr t1 \<Rightarrow> Inr (t1\<lparr>repeat := Initialized handle, active := handle # active t1\<rparr>))"

text \<open>
  One period of the interval: the window runs \<open>updateTime\<close> if the interval is still
  scheduled and does nothing otherwise.
\<close>

definition interval_fires ::
  "settings \<Rightarrow> int \<Rightarrow> nat \<Rightarrow> reading \<Rightarrow> timer \<Rightarrow> error \<times> timer + timer" where
  "interval_fires S time handle env t =
     (if handle \<in> set (active t) then updateTime S time env t else Inr t)"

text \<open>
  \<open>createElements\<close> (source lines 136-212) in two parts. \<open>create_spans\<close> is the body up to
  \<open>timer.appendChild( fragment )\<close> on line 209: six spans, of which the allowed ones are put
  into the timer, each followed by a separator when a later unit is allowed.
  \<open>createElements\<close> then calls \<open>startTimer\<close> (line 211).
\<close>

definition new_span :: "string \<Rightarrow> string option \<Rightarrow> span" where
  "new_span name hidden =
     \<lparr>className = name, aria_label = name, aria_hidden = hidden, textContent = []\<rparr>"

definition create_spans :: "settings \<Rightarrow> timer \<Rightarrow> timer" where
  "create_spans S t =
     (let sep = TextNode (separator S);
          fragment =
            (if allowed (years S) then
               Interval 0 #
               (if allowed (weeks S) \<or> allowed (days S) \<or> allowed (hours S) \<or>
                   allowed (minutes S) \<or> allowed (seconds S) then [sep] else [])
             else []) @
            (if allowed (weeks S) then
               Interval 1 #
               (if allowed (days S) \<or> allowed (hours S) \<or> allowed (minutes S) \<or>
                   allowed (seconds S) then [sep] else [])
             else []) @
            (if allowed (days S) then
               Interval 2 #
               (if allowed (hours S) \<or> allowed (minutes S) \<or> allowed (seconds S)
                then [sep] else [])
             else []) @
            (if allowed (hours S) then
               Interval 3 #
               (if allowed (minutes S) \<or> allowed (seconds S) then [sep] else [])
             else []) @
            (if allowed (minutes S) then
               Interval 4 # (if allowed (seconds S) then [sep] else [])
             else []) @
            (if allowed (seconds S) then [Interval 5] else [])
      in t\<lparr>children := children t @ fragment,
           intervals := [new_span ''years'' None, new_span ''weeks'' None,
                         new_span ''days'' None, new_span ''hours'' None,
                         new_span ''minutes'' None, new_span ''seconds'' (Some ''true'')]\<rparr>)"

definition createElements ::
  "settings \<Rightarrow> int \<Rightarrow> nat \<Rightarrow> reading \<Rightarrow> timer \<Rightarrow> error \<times> timer + timer" where
  "createElements S time handle env t = startTimer S time handle env (create_spans S t)"

text \<open>
  \<open>createTimer\<close> (source lines 82-127). \<open>parsed\<close> is the result of
  \<open>new Date( timer.getAttribute( 'datetime' ) ).getTime()\<close>, with \<open>None\<close> for NaN;
  \<open>fallback\<close> is what \<open>new Date().getTime()\<close> returns on line 109. Clearing the text
  content removes every child node of the timer.
\<close>

definition createTimer ::
  "settings \<Rightarrow> int option \<Rightarrow> int \<Rightarrow> nat \<Rightarrow> reading \<Rightarrow> timer \<Rightarrow> error \<times> timer + timer" where
  "createTimer S parsed fallback handle env t =
     (let invalid = (parsed = None \<or> parsed = Some 0);
          t1 = (if invalid then t\<lparr>console := console t @ [TimeNotFound]\<rparr> else t);
          time = (case parsed of None \<Rightarrow> fallback | Some v \<Rightarrow> if invalid then fallback else v);
          t2 = t1\<lparr>children := []\<rparr>;
          t3 = (if onCreate S then t2\<lparr>calls := calls t2 @ [OnCreate time]\<rparr> else t2)
      in createElements S time handle env t3)"

text \<open>A timer element before \<open>createTimer\<close>: some fallback text, nothing scheduled or logged.\<close>

definition fresh_timer :: timer where
  "fresh_timer =
     \<lparr>children = [TextNode ''fallback''], intervals = [], aria_live = None,
      repeat = Uninitialized, active = [], calls = [], console = []\<rparr>"

text \<open>Settings used in examples: the defaults with years and days not allowed.\<close>

definition without_years_and_days :: settings where
  "without_years_and_days =
     defaults\<lparr>years := \<lparr>allowed = False, singular = ''year'', plural = ''years''\<rparr>,
              days := \<lparr>allowed = False, singular = ''day'', plural = ''days''\<rparr>\<rparr>"

text \<open>The state a call leaves behind, whether it returned or raised.\<close>

fun final_state :: "error \<times> timer + timer \<Rightarrow> timer" where
  "final_state (Inl (e, t)) = t"
| "final_state (Inr t) = t"

text \<open>The error a call raised, if it raised one.\<close>

fun raised :: "error \<times> timer + timer \<Rightarrow> error option" where
  "raised (Inl (e, t)) = Some e"
| "raised (Inr t) = None"

section \<open>The leap-year predicate\<close>

lemma js_rem_zero_iff: "0 < b \<Longrightarrow> (0 = js_rem a b) = (b dvd a)"
proof -
  assume b: "0 < b"
  have "(0 = js_rem a b) = (a = 0 \<or> \<bar>a\<bar> mod \<bar>b\<bar> = 0)"
    by (auto simp: js_rem_def sgn_if)
  also have "\<dots> = (\<bar>b\<bar> dvd \<bar>a\<bar>)"
    by (auto simp: dvd_eq_mod_eq_0)
  also have "\<dots> = (b dvd a)" by simp
  finally show ?thesis .
qed

text \<open>
  Claim C9. For every integer year, \<open>isLeapYear\<close> returns true if and only if the year is
  divisible by 400, or divisible by 4 and not divisible by 100; 2000 and 2024 are leap
  years, 1900 and 2023 are not.
\<close>

theorem isLeapYear_gregorian:
  "(isLeapYear y \<longleftrightarrow> 400 dvd y \<or> (4 dvd y \<and> \<not> 100 dvd y)) \<and>
   isLeapYear 2000 \<and> isLeapYear 2024 \<and> \<not> isLeapYear 1900 \<and> \<not> isLeapYear 2023"
proof -
  have iff: "isLeapYear z \<longleftrightarrow> 400 dvd z \<or> (4 dvd z \<and> \<not> 100 dvd z)" for z
  proof (cases "100 dvd z")
    case True
    then show ?thesis by (simp add: isLeapYear_def js_rem_zero_iff)
  next
    case False
    have "\<not> 400 dvd z"
    proof
      assume "400 dvd z"
      moreover have "(100::int) dvd 400" by simp
      ultimately have "100 dvd z" by (rule dvd_trans[rotated])
      with False show False by simp
    qed
    with False show ?thesis by (simp add: isLeapYear_def js_rem_zero_iff)
  qed
  show ?thesis by (simp add: iff)
qed

theorem isLeapYear_gregorian_witness:
  "isLeapYear 1600 \<and> isLeapYear (-4) \<and> \<not> isLeapYear (-100) \<and> \<not> isLeapYear 2100"
  using isLeapYear_gregorian [of 1600] isLeapYear_gregorian [of "-4"]
    isLeapYear_gregorian [of "-100"] isLeapYear_gregorian [of 2100]
  by simp

section \<open>The year loop returns\<close>

text \<open>
  Claim C8. The year loop of \<open>formatDiff\<close> terminates for every difference, target year
  and reference year: the loop written with no termination argument
  (\<open>yearLoop_partial\<close>, where \<open>None\<close> is a loop that never returns) returns on every
  input, with the value of \<open>yearLoop\<close>, the function that \<open>formatDiff\<close> calls. The
  induction is on the days counter, which every iteration lowers by at least 365 while the
  guard keeps it at 365 or more.
\<close>

theorem yearLoop_terminates:
  "yearLoop_partial isNegative finalYear ys ds y = Some (yearLoop isNegative finalYear ys ds y)"
proof (induction "nat ds" arbitrary: ys ds y rule: less_induct)
  case less
  show ?case
  proof (cases "y \<noteq> finalYear \<and> 365 \<le> ds")
    case True
    define ds' where "ds' = (if isLeapYear y then ds - 366 else ds - 365)"
    define y' where "y' = (if isNegative then y - 1 else y + 1)"
    have smaller: "nat ds' < nat ds"
      using True by (simp add: ds'_def)
    have "yearLoop_partial isNegative finalYear ys ds y =
          yearLoop_partial isNegative finalYear (ys + 1) ds' y'"
      using True by (subst yearLoop_partial.simps) (simp add: ds'_def y'_def)
    also have "\<dots> = Some (yearLoop isNegative finalYear (ys + 1) ds' y')"
      using smaller by (rule less.hyps)
    also have "\<dots> = Some (yearLoop isNegative finalYear ys ds y)"
      using True by (subst (2) yearLoop.simps) (simp add: ds'_def y'_def)
    finally show ?thesis .
  next
    case False
    have "yearLoop_partial isNegative finalYear ys ds y = Some (ys, ds)"
      using False by (subst yearLoop_partial.simps) auto
    moreover have "yearLoop isNegative finalYear ys ds y = (ys, ds)"
      using False by (subst yearLoop.simps) auto
    ultimately show ?thesis by simp
  qed
qed

section \<open>The bounds of the breakdown\<close>

lemmas formatDiff_eval =
  formatDiff_def msPerDay_def msPerHour_def msPerMinute_def msPerSecond_def
  yearLoop.simps weekLoop.simps isLeapYear_def js_rem_def pad_def

text \<open>
  Claim C3 says that every breakdown has \<open>0 \<le> days < 7\<close>. The year loop takes 366 days
  off for a leap year although its guard only asks for 365: on the first of June 2024,
  with the target one year later (365 days, 31536000000 milliseconds, reference year 2024,
  target year 2025), the breakdown is one year, no weeks and minus one day.
\<close>

theorem formatDiff_days_negative:
  "formatDiff False 2024 2025 31536000000 = [Num 1, Num 0, Num (- 1), Num 0, Num 0, Num 0]"
  by (simp add: formatDiff_eval)

text \<open>
  What does hold of every breakdown (shown here for unpadded values): the bounds of the
  claim for years, weeks, hours, minutes and seconds, and \<open>-1 \<le> days < 7\<close>.
\<close>

lemma yearLoop_bounds:
  "0 \<le> ys \<Longrightarrow> - 1 \<le> ds \<Longrightarrow> yearLoop n f ys ds y = (ys', ds') \<Longrightarrow>
   ys \<le> ys' \<and> - 1 \<le> ds' \<and> ds' \<le> ds"
proof (induction n f ys ds y rule: yearLoop.induct)
  case (1 n f ys ds y)
  show ?case
  proof (cases "y \<noteq> f \<and> 365 \<le> ds")
    case True
    define ds1 where "ds1 = (if isLeapYear y then ds - 366 else ds - 365)"
    define y1 where "y1 = (if n then y - 1 else y + 1)"
    have run: "yearLoop n f (ys + 1) ds1 y1 = (ys', ds')"
      using "1.prems"(3) True by (subst (asm) yearLoop.simps) (simp add: ds1_def y1_def)
    have b: "0 \<le> ys + 1" "- 1 \<le> ds1" "ds1 \<le> ds"
      using "1.prems"(1) True by (simp_all add: ds1_def)
    from "1.IH"[OF True b(1) b(2)[unfolded ds1_def] run[unfolded ds1_def y1_def]] b(3)
    show ?thesis by (simp add: ds1_def)
  next
    case False
    then have "yearLoop n f ys ds y = (ys, ds)" by (subst yearLoop.simps) auto
    with "1.prems" show ?thesis by simp
  qed
qed

lemma weekLoop_bounds:
  "0 \<le> ws \<Longrightarrow> ws < 52 \<Longrightarrow> weekLoop ys ws ds = (ys', ws', ds') \<Longrightarrow>
   ys \<le> ys' \<and> 0 \<le> ws' \<and> ws' < 52 \<and> ds' < 7 \<and> min 0 ds \<le> ds'"
proof (induction ys ws ds rule: weekLoop.induct)
  case (1 ys ws ds)
  show ?case
  proof (cases "7 \<le> ds")
    case False
    then have "weekLoop ys ws ds = (ys, ws, ds)" by (subst weekLoop.simps) simp
    with "1.prems" False show ?thesis by simp
  next
    case True
    show ?thesis
    proof (cases "52 \<le> ws + 1")
      case wrap: True
      have run: "weekLoop (ys + 1) 0 (ds - 7) = (ys', ws', ds')"
        using "1.prems"(3) True wrap by (subst (asm) weekLoop.simps) simp
      from "1.IH"(1)[OF True wrap _ _ run] True show ?thesis by simp
    next
      case nowrap: False
      have run: "weekLoop ys (ws + 1) (ds - 7) = (ys', ws', ds')"
        using "1.prems"(3) True nowrap by (subst (asm) weekLoop.simps) simp
      from "1.IH"(2)[OF True nowrap _ _ run] "1.prems"(1) nowrap True show ?thesis by simp
    qed
  qed
qed

lemma mod_div_bounds:
  fixes x b c :: int
  assumes "0 < b" "0 < c"
  shows "0 \<le> x mod (c * b) div b \<and> x mod (c * b) div b < c"
proof -
  define r where "r = x mod (c * b)"
  have cb: "0 < c * b" using assms by simp
  have r: "0 \<le> r" "r < c * b"
    using cb by (simp_all add: r_def)
  have nonneg: "0 \<le> r div b"
    using assms(1) r(1) by (simp add: pos_imp_zdiv_nonneg_iff)
  have "0 \<le> r mod b" using assms(1) by simp
  moreover have "r = b * (r div b) + r mod b" by simp
  ultimately have le: "b * (r div b) \<le> r" by linarith
  have "r div b < c"
  proof (rule ccontr)
    assume "\<not> r div b < c"
    then have "c \<le> r div b" by simp
    then have "b * c \<le> b * (r div b)" using assms(1) by (simp add: mult_left_mono)
    with le have "c * b \<le> r" by (simp add: mult.commute)
    with r(2) show False by simp
  qed
  with nonneg show ?thesis by (simp add: r_def)
qed

lemma formatDiff_bounds:
  "\<exists>y w d h m s. formatDiff False nowYear finalYear ms = [Num y, Num w, Num d, Num h, Num m, Num s] \<and>
     0 \<le> y \<and> 0 \<le> w \<and> w < 52 \<and> - 1 \<le> d \<and> d < 7 \<and>
     0 \<le> h \<and> h < 24 \<and> 0 \<le> m \<and> m < 60 \<and> 0 \<le> s \<and> s < 60"
proof -
  define d0 where "d0 = \<bar>ms\<bar> div msPerDay"
  obtain y1 d1 where yl: "yearLoop (0 > ms) finalYear 0 d0 nowYear = (y1, d1)"
    by (metis surj_pair)
  obtain y w d where wl: "weekLoop y1 0 d1 = (y, w, d)"
    by (metis prod_cases3)
  have d0: "0 \<le> d0"
    by (simp add: d0_def msPerDay_def msPerHour_def msPerMinute_def msPerSecond_def
        pos_imp_zdiv_nonneg_iff)
  from yearLoop_bounds[OF _ _ yl] d0 have b1: "0 \<le> y1" "- 1 \<le> d1" by simp_all
  from weekLoop_bounds[OF _ _ wl] b1 have b2: "0 \<le> y" "0 \<le> w" "w < 52" "d < 7" "- 1 \<le> d"
    by (auto simp: min_def split: if_splits)
  have fd: "formatDiff False nowYear finalYear ms =
        [Num y, Num w, Num d, Num (\<bar>ms\<bar> mod msPerDay div msPerHour),
         Num (\<bar>ms\<bar> mod msPerHour div msPerMinute), Num (\<bar>ms\<bar> mod msPerMinute div msPerSecond)]"
    using yl wl by (simp add: formatDiff_def Let_def pad_def d0_def)
  have h: "0 \<le> \<bar>ms\<bar> mod msPerDay div msPerHour \<and> \<bar>ms\<bar> mod msPerDay div msPerHour < 24"
    unfolding msPerDay_def by (rule mod_div_bounds) (simp_all add: msPerHour_def msPerMinute_def msPerSecond_def)
  have m: "0 \<le> \<bar>ms\<bar> mod msPerHour div msPerMinute \<and> \<bar>ms\<bar> mod msPerHour div msPerMinute < 60"
    unfolding msPerHour_def by (rule mod_div_bounds) (simp_all add: msPerMinute_def msPerSecond_def)
  have s: "0 \<le> \<bar>ms\<bar> mod msPerMinute div msPerSecond \<and> \<bar>ms\<bar> mod msPerMinute div msPerSecond < 60"
    unfolding msPerMinute_def by (rule mod_div_bounds) (simp_all add: msPerSecond_def)
  from fd b2 h m s show ?thesis by blast
qed

section \<open>What each operation leaves unchanged\<close>

lemma removeAt_frame [simp]:
  "repeat (removeAt p t) = repeat t" "calls (removeAt p t) = calls t"
  "active (removeAt p t) = active t" "intervals (removeAt p t) = intervals t"
  "aria_live (removeAt p t) = aria_live t" "console (removeAt p t) = console t"
  by (simp_all add: removeAt_def)

lemma removeChild_frame [simp]:
  "repeat (removeChild i t) = repeat t" "calls (removeChild i t) = calls t"
  "active (removeChild i t) = active t" "intervals (removeChild i t) = intervals t"
  "aria_live (removeChild i t) = aria_live t" "console (removeChild i t) = console t"
  by (simp_all add: removeChild_def split: option.split)

lemma appendChild_frame [simp]:
  "repeat (appendChild i t) = repeat t" "calls (appendChild i t) = calls t"
  "active (appendChild i t) = active t" "intervals (appendChild i t) = intervals t"
  "aria_live (appendChild i t) = aria_live t" "console (appendChild i t) = console t"
  by (simp_all add: appendChild_def)

lemma set_aria_hidden_frame [simp]:
  "repeat (set_aria_hidden i v t) = repeat t" "calls (set_aria_hidden i v t) = calls t"
  "active (set_aria_hidden i v t) = active t" "children (set_aria_hidden i v t) = children t"
  "aria_live (set_aria_hidden i v t) = aria_live t" "console (set_aria_hidden i v t) = console t"
  by (simp_all add: set_aria_hidden_def)

lemma updateDisplay_frame [simp]:
  "repeat (updateDisplay i v l t) = repeat t" "calls (updateDisplay i v l t) = calls t"
  "active (updateDisplay i v l t) = active t" "children (updateDisplay i v l t) = children t"
  "aria_live (updateDisplay i v l t) = aria_live t" "console (updateDisplay i v l t) = console t"
  by (simp_all add: updateDisplay_def Let_def)

lemma scan_callback_frame:
  "scan_callback S v i (hn, t) = (r, hn', t') \<Longrightarrow>
   repeat t' = repeat t \<and> calls t' = calls t \<and> active t' = active t \<and>
   aria_live t' = aria_live t \<and> console t' = console t"
  by (auto simp: scan_callback_def Let_def split: if_splits option.splits)

lemma find_scan_frame:
  "find_scan S pd i (hn, t) = (hn', t') \<Longrightarrow>
   repeat t' = repeat t \<and> calls t' = calls t \<and> active t' = active t \<and>
   aria_live t' = aria_live t \<and> console t' = console t"
proof (induction pd arbitrary: i hn t)
  case Nil
  then show ?case by simp
next
  case (Cons v pd)
  obtain r hn1 t1 where cb: "scan_callback S v i (hn, t) = (r, hn1, t1)"
    by (metis prod_cases3)
  note fr = scan_callback_frame[OF cb]
  show ?case
  proof (cases "case r of Some w \<Rightarrow> truthy w | None \<Rightarrow> False")
    case True
    with Cons.prems cb have "t' = t1" by simp
    with fr show ?thesis by simp
  next
    case False
    with Cons.prems cb have "find_scan S pd (Suc i) (hn1, t1) = (hn', t')" by simp
    from Cons.IH[OF this] fr show ?thesis by simp
  qed
qed

lemma live_region_frame [simp]:
  "repeat (live_region pd hn t) = repeat t" "calls (live_region pd hn t) = calls t"
  "active (live_region pd hn t) = active t" "children (live_region pd hn t) = children t"
  "console (live_region pd hn t) = console t"
  by (simp_all add: live_region_def)

lemma forEach_callback_frame [simp]:
  "repeat (forEach_callback S hn i t) = repeat t" "calls (forEach_callback S hn i t) = calls t"
  "active (forEach_callback S hn i t) = active t" "intervals (forEach_callback S hn i t) = intervals t"
  "aria_live (forEach_callback S hn i t) = aria_live t" "console (forEach_callback S hn i t) = console t"
  by (simp_all add: forEach_callback_def Let_def split: option.split)

lemma forEach_fold_frame [simp]:
  "repeat (foldl (\<lambda>t' index. forEach_callback S hn index t') t is) = repeat t"
  "calls (foldl (\<lambda>t' index. forEach_callback S hn index t') t is) = calls t"
  "active (foldl (\<lambda>t' index. forEach_callback S hn index t') t is) = active t"
  "intervals (foldl (\<lambda>t' index. forEach_callback S hn index t') t is) = intervals t"
  "aria_live (foldl (\<lambda>t' index. forEach_callback S hn index t') t is) = aria_live t"
  "console (foldl (\<lambda>t' index. forEach_callback S hn index t') t is) = console t"
  by (induction "is" arbitrary: t; simp)+

lemma forEach_intervals_frame [simp]:
  "repeat (forEach_intervals S hn t) = repeat t" "calls (forEach_intervals S hn t) = calls t"
  "active (forEach_intervals S hn t) = active t" "intervals (forEach_intervals S hn t) = intervals t"
  "aria_live (forEach_intervals S hn t) = aria_live t" "console (forEach_intervals S hn t) = console t"
  by (simp_all add: forEach_intervals_def split: option.split)

lemma show_remaining_frame [simp]:
  "repeat (show_remaining S time diff neg pd t) = repeat t"
  "active (show_remaining S time diff neg pd t) = active t"
  "children (show_remaining S time diff neg pd t) = children t"
  "aria_live (show_remaining S time diff neg pd t) = aria_live t"
  "console (show_remaining S time diff neg pd t) = console t"
  by (simp_all add: show_remaining_def Let_def)

section \<open>updateTime in stages\<close>

lemma updateTime_staged:
  assumes "formatDiff (padValues S) (now_year env) (final_year env) (time - now_ms env) = pd"
    and "find_scan S pd 0 (None, t) = (hn, t1)"
  shows "updateTime S time env t =
           (if time \<le> now_ms env \<and> \<not> allowNegative S
            then show_zero_and_stop S time (forEach_intervals S hn (live_region pd hn t1))
            else Inr (show_remaining S time (time - now_ms env) (time < now_ms env) pd
                       (forEach_intervals S hn (live_region pd hn t1))))"
  using assms by (simp add: updateTime_def Let_def)

lemma show_zero_and_stop_uninitialized:
  assumes "repeat t = Uninitialized"
  shows "\<exists>t'. show_zero_and_stop S time t = Inl (ReferenceError, t') \<and> calls t' = calls t \<and>
           active t' = active t \<and> repeat t' = Uninitialized \<and> console t' = console t \<and>
           children t' = children t \<and> aria_live t' = aria_live t"
  using assms by (simp add: show_zero_and_stop_def Let_def)

lemma show_zero_and_stop_initialized:
  assumes "repeat t = Initialized handle" "handle \<noteq> 0"
  shows "\<exists>t'. show_zero_and_stop S time t = Inr t' \<and>
           calls t' = calls t @ (if onEnd S then [OnEnd time] else []) \<and>
           active t' = removeAll handle (active t) \<and> repeat t' = repeat t \<and>
           console t' = console t"
  using assms by (simp add: show_zero_and_stop_def Let_def)

lemma updateTime_terminal_uninitialized:
  assumes "\<not> allowNegative S" "time \<le> now_ms env" "repeat t = Uninitialized"
  shows "\<exists>t'. updateTime S time env t = Inl (ReferenceError, t') \<and> calls t' = calls t \<and>
           active t' = active t \<and> repeat t' = Uninitialized \<and> console t' = console t"
proof -
  define pd where "pd = formatDiff (padValues S) (now_year env) (final_year env) (time - now_ms env)"
  obtain hn t1 where fs: "find_scan S pd 0 (None, t) = (hn, t1)"
    by (metis surj_pair)
  note fr = find_scan_frame[OF fs]
  have ut: "updateTime S time env t =
              show_zero_and_stop S time (forEach_intervals S hn (live_region pd hn t1))"
    using assms(1,2) by (simp add: updateTime_staged[OF pd_def[symmetric] fs])
  have "repeat (forEach_intervals S hn (live_region pd hn t1)) = Uninitialized"
    using fr assms(3) by simp
  from show_zero_and_stop_uninitialized[OF this, of S time] fr
  show ?thesis unfolding ut by auto
qed

lemma updateTime_terminal_initialized:
  assumes "\<not> allowNegative S" "time \<le> now_ms env" "repeat t = Initialized handle" "handle \<noteq> 0"
  shows "\<exists>t'. updateTime S time env t = Inr t' \<and>
           calls t' = calls t @ (if onEnd S then [OnEnd time] else []) \<and>
           active t' = removeAll handle (active t) \<and> repeat t' = repeat t"
proof -
  define pd where "pd = formatDiff (padValues S) (now_year env) (final_year env) (time - now_ms env)"
  obtain hn t1 where fs: "find_scan S pd 0 (None, t) = (hn, t1)"
    by (metis surj_pair)
  note fr = find_scan_frame[OF fs]
  have ut: "updateTime S time env t =
              show_zero_and_stop S time (forEach_intervals S hn (live_region pd hn t1))"
    using assms(1,2) by (simp add: updateTime_staged[OF pd_def[symmetric] fs])
  have "repeat (forEach_intervals S hn (live_region pd hn t1)) = Initialized handle"
    using fr assms(3) by simp
  from show_zero_and_stop_initialized[OF this assms(4), of S time] fr
  show ?thesis unfolding ut by auto
qed

section \<open>The first update of an expired timer\<close>

text \<open>
  Claim C10. When the target time is at or before the current time and negative values are
  not allowed, the first \<open>updateTime()\<close> of \<open>startTimer\<close> runs while the binding
  \<open>repeat\<close> is not initialised: \<open>startTimer\<close> raises a ReferenceError, no hook has been
  called by then (so \<open>onEnd\<close> is not reached) and no interval has been scheduled.
\<close>

theorem first_update_raises:
  assumes "\<not> allowNegative S" "time \<le> now_ms env"
  shows "\<exists>t'. startTimer S time handle env t = Inl (ReferenceError, t') \<and>
              calls t' = calls t \<and> active t' = active t \<and> repeat t' = Uninitialized"
proof -
  have "repeat (t\<lparr>repeat := Uninitialized\<rparr>) = Uninitialized" by simp
  from updateTime_terminal_uninitialized[OF assms this]
  show ?thesis by (auto simp: startTimer_def)
qed

theorem first_update_raises_witness:
  "\<not> allowNegative defaults \<and> (1000::int) \<le> 2000 \<and>
   (\<exists>t'. startTimer defaults 1000 7 \<lparr>now_ms = 2000, now_year = 1970, final_year = 1970\<rparr>
            (create_spans defaults (fresh_timer\<lparr>children := []\<rparr>)) = Inl (ReferenceError, t') \<and>
          calls t' = [] \<and> active t' = [] \<and> repeat t' = Uninitialized)"
  using first_update_raises [of defaults 1000 "\<lparr>now_ms = 2000, now_year = 1970, final_year = 1970\<rparr>" 7
     "create_spans defaults (fresh_timer\<lparr>children := []\<rparr>)"]
  by (simp add: defaults_def fresh_timer_def create_spans_def Let_def)

section \<open>Creating a timer whose target time has passed\<close>

lemma startTimer_expired:
  assumes "\<not> allowNegative S" "time \<le> now_ms env"
  shows "\<exists>t'. startTimer S time handle env t = Inl (ReferenceError, t') \<and>
              calls t' = calls t \<and> active t' = active t \<and> console t' = console t"
proof -
  have "repeat (t\<lparr>repeat := Uninitialized\<rparr>) = Uninitialized" by simp
  from updateTime_terminal_uninitialized[OF assms this]
  show ?thesis by (auto simp: startTimer_def)
qed

lemma create_spans_frame [simp]:
  "calls (create_spans S t) = calls t" "active (create_spans S t) = active t"
  "console (create_spans S t) = console t"
  by (simp_all add: create_spans_def Let_def)

lemma createTimer_expired:
  assumes "\<not> allowNegative S"
    and "time = (case parsed of None \<Rightarrow> fallback | Some v \<Rightarrow> if v = 0 then fallback else v)"
    and "time \<le> now_ms env"
  shows "\<exists>t'. createTimer S parsed fallback handle env t = Inl (ReferenceError, t') \<and>
              calls t' = calls t @ (if onCreate S then [OnCreate time] else []) \<and>
              active t' = active t \<and>
              console t' = console t @
                (if parsed = None \<or> parsed = Some 0 then [TimeNotFound] else [])"
proof -
  define t3 where "t3 =
    (let t1 = (if parsed = None \<or> parsed = Some 0 then t\<lparr>console := console t @ [TimeNotFound]\<rparr> else t);
         t2 = t1\<lparr>children := []\<rparr>
     in if onCreate S then t2\<lparr>calls := calls t2 @ [OnCreate time]\<rparr> else t2)"
  have time_eq: "(case parsed of None \<Rightarrow> fallback
                  | Some v \<Rightarrow> if parsed = None \<or> parsed = Some 0 then fallback else v) = time"
    using assms(2) by (cases parsed) auto
  have ct: "createTimer S parsed fallback handle env t =
            startTimer S time handle env (create_spans S t3)"
    by (simp add: createTimer_def createElements_def Let_def time_eq t3_def)
  have t3_fields: "calls t3 = calls t @ (if onCreate S then [OnCreate time] else [])"
    "active t3 = active t"
    "console t3 = console t @ (if parsed = None \<or> parsed = Some 0 then [TimeNotFound] else [])"
    by (simp_all add: t3_def Let_def)
  from startTimer_expired[OF assms(1,3), of handle "create_spans S t3"]
  show ?thesis unfolding ct using t3_fields by auto
qed

text \<open>
  Claim C1 says that on every tick with a difference of zero or less and negative values
  not allowed, the first recomputation at creation included, every unit shows 0, the
  interval is stopped and \<open>onEnd\<close> is invoked exactly once. At creation this fails: a timer
  with \<open>onEnd\<close> supplied, created one second after its target time, raises a
  ReferenceError out of \<open>createTimer\<close> with no hook invoked and no interval scheduled.
\<close>

theorem expired_timer_never_ends:
  "raised (createTimer (defaults\<lparr>onEnd := True\<rparr>) (Some 1000) 0 7
            \<lparr>now_ms = 2000, now_year = 1970, final_year = 1970\<rparr> fresh_timer) = Some ReferenceError \<and>
   calls (final_state (createTimer (defaults\<lparr>onEnd := True\<rparr>) (Some 1000) 0 7
            \<lparr>now_ms = 2000, now_year = 1970, final_year = 1970\<rparr> fresh_timer)) = [] \<and>
   active (final_state (createTimer (defaults\<lparr>onEnd := True\<rparr>) (Some 1000) 0 7
            \<lparr>now_ms = 2000, now_year = 1970, final_year = 1970\<rparr> fresh_timer)) = []"
proof -
  have "\<exists>t'. createTimer (defaults\<lparr>onEnd := True\<rparr>) (Some 1000) 0 7
              \<lparr>now_ms = 2000, now_year = 1970, final_year = 1970\<rparr> fresh_timer =
              Inl (ReferenceError, t') \<and>
            calls t' = calls fresh_timer @
              (if onCreate (defaults\<lparr>onEnd := True\<rparr>) then [OnCreate 1000] else []) \<and>
            active t' = active fresh_timer \<and>
            console t' = console fresh_timer @
              (if Some (1000::int) = None \<or> Some (1000::int) = Some 0 then [TimeNotFound] else [])"
    by (rule createTimer_expired) (simp_all add: defaults_def)
  then show ?thesis by (auto simp: defaults_def fresh_timer_def)
qed

text \<open>
  Claim C7 says that with an absent or unparsable target time \<open>createTimer\<close> substitutes
  the current time, reports an error and continues, never raising to its caller. With the
  default settings the substituted time is not after the current time of the first update,
  and \<open>createTimer\<close> raises a ReferenceError after it has reported the error.
\<close>

theorem invalid_datetime_raises:
  "raised (createTimer defaults None 5000 7
            \<lparr>now_ms = 5000, now_year = 1970, final_year = 1970\<rparr> fresh_timer) = Some ReferenceError \<and>
   console (final_state (createTimer defaults None 5000 7
            \<lparr>now_ms = 5000, now_year = 1970, final_year = 1970\<rparr> fresh_timer)) = [TimeNotFound]"
proof -
  have "\<exists>t'. createTimer defaults None 5000 7
              \<lparr>now_ms = 5000, now_year = 1970, final_year = 1970\<rparr> fresh_timer =
              Inl (ReferenceError, t') \<and>
            calls t' = calls fresh_timer @ (if onCreate defaults then [OnCreate 5000] else []) \<and>
            active t' = active fresh_timer \<and>
            console t' = console fresh_timer @
              (if (None :: int option) = None \<or> (None :: int option) = Some 0
               then [TimeNotFound] else [])"
    by (rule createTimer_expired) (simp_all add: defaults_def)
  then show ?thesis by (auto simp: defaults_def fresh_timer_def)
qed

text \<open>
  On a tick of the interval, when \<open>repeat\<close> holds the non-zero handle, the same branch
  returns: \<open>onEnd\<close> is called once, the interval is cleared and never fires again.
\<close>

lemma later_tick_stops:
  assumes "\<not> allowNegative S" "time \<le> now_ms env" "repeat t = Initialized handle"
    "handle \<noteq> 0"
  shows "\<exists>t'. updateTime S time env t = Inr t' \<and>
           calls t' = calls t @ (if onEnd S then [OnEnd time] else []) \<and>
           handle \<notin> set (active t') \<and>
           (\<forall>env'. interval_fires S time handle env' t' = Inr t')"
proof -
  from updateTime_terminal_initialized[OF assms]
  obtain t' where t': "updateTime S time env t = Inr t'"
    "calls t' = calls t @ (if onEnd S then [OnEnd time] else [])"
    "active t' = removeAll handle (active t)" by blast
  have "handle \<notin> set (active t')" using t'(3) by simp
  then have "\<forall>env'. interval_fires S time handle env' t' = Inr t'"
    by (simp add: interval_fires_def)
  with t' \<open>handle \<notin> set (active t')\<close> show ?thesis by blast
qed

section \<open>The scan for the highest non-zero value\<close>

declare find_scan.simps(2) [simp del]

lemma js_lt_truthy: "js_lt 0 v \<Longrightarrow> truthy v"
  by (cases v) (auto simp: js_lt_def split: if_splits)

lemma find_scan_positive:
  "js_lt 0 v \<Longrightarrow> find_scan S (v # pd) i (hn, t) = (Some i, t)"
  by (simp add: find_scan.simps(2) scan_callback_def js_lt_truthy)

lemma scan_callback_zero:
  assumes "\<not> js_lt 0 v"
  shows "\<exists>t1. scan_callback S v i (hn, t) = (None, hn, t1) \<and>
           intervals t1 =
             (if hn = None \<and> \<not> has_class_seconds t i
              then (intervals t)[i := (intervals t ! i)\<lparr>aria_hidden := Some ''true''\<rparr>]
              else intervals t)"
proof (cases "hn = None \<and> \<not> has_class_seconds t i")
  case True
  have "intervals (set_aria_hidden i ''true'' t) =
        (intervals t)[i := (intervals t ! i)\<lparr>aria_hidden := Some ''true''\<rparr>]"
    by (simp add: set_aria_hidden_def)
  then show ?thesis
    using assms True by (simp add: scan_callback_def Let_def split: option.split)
next
  case False
  then show ?thesis
    using assms by (auto simp add: scan_callback_def)
qed

lemma find_scan_zero:
  assumes "\<not> js_lt 0 v"
  shows "\<exists>t1. find_scan S (v # pd) i (hn, t) = find_scan S pd (Suc i) (hn, t1) \<and>
           intervals t1 =
             (if hn = None \<and> \<not> has_class_seconds t i
              then (intervals t)[i := (intervals t ! i)\<lparr>aria_hidden := Some ''true''\<rparr>]
              else intervals t)"
proof -
  from scan_callback_zero[OF assms, of S i hn t]
  obtain t1 where t1: "scan_callback S v i (hn, t) = (None, hn, t1)"
    "intervals t1 =
             (if hn = None \<and> \<not> has_class_seconds t i
              then (intervals t)[i := (intervals t ! i)\<lparr>aria_hidden := Some ''true''\<rparr>]
              else intervals t)" by blast
  have "find_scan S (v # pd) i (hn, t) = find_scan S pd (Suc i) (hn, t1)"
    by (simp add: find_scan.simps(2) t1(1))
  with t1(2) show ?thesis by blast
qed

lemma find_scan_highest:
  "fst (find_scan S pd i (hn0, t)) =
     (if length (takeWhile (\<lambda>v. \<not> js_lt 0 v) pd) < length pd
      then Some (i + length (takeWhile (\<lambda>v. \<not> js_lt 0 v) pd)) else hn0)"
proof (induction pd arbitrary: i t)
  case Nil
  show ?case by simp
next
  case (Cons v pd)
  show ?case
  proof (cases "js_lt 0 v")
    case True
    then show ?thesis by (simp add: find_scan_positive)
  next
    case False
    from find_scan_zero[OF False, of S pd i hn0 t]
    obtain t1 where "find_scan S (v # pd) i (hn0, t) = find_scan S pd (Suc i) (hn0, t1)"
      by blast
    with Cons.IH[of "Suc i" t1] False show ?thesis by simp
  qed
qed

lemma hide_nth:
  "xs[i := (xs ! i)\<lparr>aria_hidden := Some ''true''\<rparr>] ! k =
     (if k = i \<and> i < length xs then (xs ! i)\<lparr>aria_hidden := Some ''true''\<rparr> else xs ! k)"
  by (cases "i < length xs") (auto simp: nth_list_update list_update_beyond)

lemma find_scan_intervals:
  assumes "find_scan S pd i (hn0, t) = (hn, t')"
  shows "length (intervals t') = length (intervals t) \<and>
         className (intervals t' ! k) = className (intervals t ! k) \<and>
         (has_class_seconds t k \<longrightarrow> aria_hidden (intervals t' ! k) = aria_hidden (intervals t ! k)) \<and>
         (aria_hidden (intervals t ! k) = Some ''true'' \<longrightarrow>
            aria_hidden (intervals t' ! k) = Some ''true'')"
  using assms
proof (induction pd arbitrary: i t)
  case Nil
  then show ?case by simp
next
  case (Cons v pd)
  show ?case
  proof (cases "js_lt 0 v")
    case True
    with Cons.prems show ?thesis by (simp add: find_scan_positive)
  next
    case False
    from find_scan_zero[OF False, of S pd i hn0 t]
    obtain t1 where t1: "find_scan S (v # pd) i (hn0, t) = find_scan S pd (Suc i) (hn0, t1)"
      "intervals t1 =
             (if hn0 = None \<and> \<not> has_class_seconds t i
              then (intervals t)[i := (intervals t ! i)\<lparr>aria_hidden := Some ''true''\<rparr>]
              else intervals t)"
      by blast
    have s1: "length (intervals t1) = length (intervals t)"
      by (simp add: t1(2))
    have s2: "className (intervals t1 ! k) = className (intervals t ! k)"
      by (simp add: t1(2) hide_nth)
    have s3: "has_class_seconds t k \<longrightarrow>
              aria_hidden (intervals t1 ! k) = aria_hidden (intervals t ! k)"
      by (auto simp add: t1(2) hide_nth)
    have s4: "aria_hidden (intervals t ! k) = Some ''true'' \<longrightarrow>
              aria_hidden (intervals t1 ! k) = Some ''true''"
      by (simp add: t1(2) hide_nth)
    have s5: "has_class_seconds t1 k = has_class_seconds t k"
      by (simp add: has_class_seconds_def s2)
    from Cons.prems t1(1) have "find_scan S pd (Suc i) (hn0, t1) = (hn, t')" by simp
    from Cons.IH[OF this] have ih:
      "length (intervals t') = length (intervals t1)"
      "className (intervals t' ! k) = className (intervals t1 ! k)"
      "has_class_seconds t1 k \<longrightarrow> aria_hidden (intervals t' ! k) = aria_hidden (intervals t1 ! k)"
      "aria_hidden (intervals t1 ! k) = Some ''true'' \<longrightarrow> aria_hidden (intervals t' ! k) = Some ''true''"
      by blast+
    show ?thesis
      using ih s1 s2 s3 s4 s5 by metis
  qed
qed

lemma find_scan_hides_leading:
  assumes "find_scan S pd i (None, t) = (hn, t')"
    and "i \<le> j" "j < i + length pd" "\<forall>k. hn = Some k \<longrightarrow> j < k"
    and "j < length (intervals t)" "\<not> has_class_seconds t j"
  shows "aria_hidden (intervals t' ! j) = Some ''true''"
  using assms
proof (induction pd arbitrary: i t)
  case Nil
  then show ?case by simp
next
  case (Cons v pd)
  show ?case
  proof (cases "js_lt 0 v")
    case True
    with Cons.prems(1) have "hn = Some i" by (simp add: find_scan_positive)
    with Cons.prems(2,4) show ?thesis by auto
  next
    case False
    from find_scan_zero[OF False, of S pd i None t]
    obtain t1 where t1: "find_scan S (v # pd) i (None, t) = find_scan S pd (Suc i) (None, t1)"
      "intervals t1 =
             (if \<not> has_class_seconds t i
              then (intervals t)[i := (intervals t ! i)\<lparr>aria_hidden := Some ''true''\<rparr>]
              else intervals t)"
      by auto
    from Cons.prems(1) t1(1) have rest: "find_scan S pd (Suc i) (None, t1) = (hn, t')" by simp
    show ?thesis
    proof (cases "j = i")
      case True
      with Cons.prems(5,6) t1(2) have "aria_hidden (intervals t1 ! j) = Some ''true''" by simp
      with find_scan_intervals[OF rest, of j] show ?thesis by simp
    next
      case False
      with Cons.prems(2) have le: "Suc i \<le> j" by simp
      from Cons.prems(3) have lt: "j < Suc i + length pd" by simp
      have len: "j < length (intervals t1)" using Cons.prems(5) t1(2) by simp
      have "className (intervals t1 ! j) = className (intervals t ! j)"
        using False by (simp add: t1(2) hide_nth)
      then have cls: "\<not> has_class_seconds t1 j"
        using Cons.prems(6) by (simp add: has_class_seconds_def)
      from Cons.IH[OF rest le lt Cons.prems(4) len cls] show ?thesis .
    qed
  qed
qed

lemma first_index_iff:
  "(length (takeWhile P xs) = k \<and> k < length xs) \<longleftrightarrow>
   (k < length xs \<and> \<not> P (xs ! k) \<and> (\<forall>j<k. P (xs ! j)))"
proof
  assume L: "length (takeWhile P xs) = k \<and> k < length xs"
  then have "\<not> P (xs ! k)" using nth_length_takeWhile[of P xs] by simp
  moreover have "\<forall>j<k. P (xs ! j)"
  proof (intro allI impI)
    fix j assume "j < k"
    with L have j: "j < length (takeWhile P xs)" by simp
    then have "takeWhile P xs ! j = xs ! j" by (rule takeWhile_nth)
    moreover have "takeWhile P xs ! j \<in> set (takeWhile P xs)" using j by simp
    ultimately show "P (xs ! j)" using set_takeWhileD by metis
  qed
  ultimately show "k < length xs \<and> \<not> P (xs ! k) \<and> (\<forall>j<k. P (xs ! j))" using L by simp
next
  assume R: "k < length xs \<and> \<not> P (xs ! k) \<and> (\<forall>j<k. P (xs ! j))"
  then have ge: "k \<le> length (takeWhile P xs)"
    by (intro length_takeWhile_less_P_nth) auto
  have "\<not> k < length (takeWhile P xs)"
  proof
    assume j: "k < length (takeWhile P xs)"
    then have "takeWhile P xs ! k = xs ! k" by (rule takeWhile_nth)
    moreover have "takeWhile P xs ! k \<in> set (takeWhile P xs)" using j by simp
    ultimately have "P (xs ! k)" using set_takeWhileD by metis
    with R show False by simp
  qed
  with ge R show "length (takeWhile P xs) = k \<and> k < length xs" by simp
qed

lemma no_index_iff:
  "(\<not> length (takeWhile P xs) < length xs) \<longleftrightarrow> (\<forall>x\<in>set xs. P x)"
proof -
  have "length (takeWhile P xs) \<le> length xs" by (rule length_takeWhile_le)
  then have "(\<not> length (takeWhile P xs) < length xs) \<longleftrightarrow> length (takeWhile P xs) = length xs"
    by auto
  also have "\<dots> \<longleftrightarrow> takeWhile P xs = xs"
    by (metis takeWhile_eq_take take_all order_refl)
  also have "\<dots> \<longleftrightarrow> (\<forall>x\<in>set xs. P x)" by (rule takeWhile_eq_all_conv)
  finally show ?thesis .
qed

lemma create_spans_intervals:
  "intervals (create_spans S t) =
     [new_span ''years'' None, new_span ''weeks'' None, new_span ''days'' None,
      new_span ''hours'' None, new_span ''minutes'' None, new_span ''seconds'' (Some ''true'')]"
  by (simp add: create_spans_def Let_def)

text \<open>
  What the scan computes, for every breakdown and every state: \<open>highestNonzero\<close> is the
  first position whose value is greater than 0 (undefined when no value is), whatever the
  settings are; every position before it that is not the seconds span is given
  \<open>aria-hidden = "true"\<close>.
\<close>

lemma find_scan_result:
  assumes "find_scan S pd 0 (None, t) = (hn, t')"
  shows "(hn = None \<longleftrightarrow> (\<forall>v\<in>set pd. \<not> js_lt 0 v)) \<and>
         (\<forall>k. hn = Some k \<longleftrightarrow>
                k < length pd \<and> js_lt 0 (pd ! k) \<and> (\<forall>j<k. \<not> js_lt 0 (pd ! j))) \<and>
         (\<forall>S' u. fst (find_scan S' pd 0 (None, u)) = hn) \<and>
         (\<forall>j. j < length pd \<longrightarrow> j < length (intervals t) \<longrightarrow> (\<forall>k. hn = Some k \<longrightarrow> j < k) \<longrightarrow>
              \<not> has_class_seconds t j \<longrightarrow> aria_hidden (intervals t' ! j) = Some ''true'')"
proof -
  let ?n = "length (takeWhile (\<lambda>v. \<not> js_lt 0 v) pd)"
  have hn: "hn = (if ?n < length pd then Some ?n else None)"
    using find_scan_highest[of S pd 0 None t] assms by simp
  have c1: "hn = None \<longleftrightarrow> (\<forall>v\<in>set pd. \<not> js_lt 0 v)"
  proof -
    have "hn = None \<longleftrightarrow> \<not> ?n < length pd" by (simp add: hn)
    also have "\<dots> \<longleftrightarrow> (\<forall>v\<in>set pd. \<not> js_lt 0 v)" by (rule no_index_iff)
    finally show ?thesis .
  qed
  have c2: "hn = Some k \<longleftrightarrow> k < length pd \<and> js_lt 0 (pd ! k) \<and> (\<forall>j<k. \<not> js_lt 0 (pd ! j))" for k
  proof -
    have "hn = Some k \<longleftrightarrow> ?n = k \<and> k < length pd" by (auto simp: hn)
    also have "\<dots> \<longleftrightarrow> k < length pd \<and> \<not> \<not> js_lt 0 (pd ! k) \<and> (\<forall>j<k. \<not> js_lt 0 (pd ! j))"
      by (rule first_index_iff)
    finally show ?thesis by simp
  qed
  have c3: "fst (find_scan S' pd 0 (None, u)) = hn" for S' u
    using find_scan_highest[of S' pd 0 None u] by (simp add: hn)
  have c4: "aria_hidden (intervals t' ! j) = Some ''true''"
    if "j < length pd" "j < length (intervals t)" "\<forall>k. hn = Some k \<longrightarrow> j < k"
       "\<not> has_class_seconds t j" for j
    using find_scan_hides_leading[OF assms, of j] that by simp
  show ?thesis using c1 c2 c3 c4 by blast
qed

section \<open>Runs of createTimer, stage by stage\<close>

lemmas dom_eval =
  contains_def removeAt_def nextSibling_def previousSibling_def removeChild_def
  appendChild_def set_aria_hidden_def has_class_seconds_def

lemma createTimer_valid:
  assumes "v \<noteq> 0" "\<not> onCreate S"
  shows "createTimer S (Some v) fallback handle env t =
           startTimer S v handle env (create_spans S (t\<lparr>children := []\<rparr>))"
  using assms by (simp add: createTimer_def createElements_def Let_def)

lemma startTimer_returns:
  assumes "updateTime S time env (t\<lparr>repeat := Uninitialized\<rparr>) = Inr t1"
  shows "startTimer S time handle env t =
           Inr (t1\<lparr>repeat := Initialized handle, active := handle # active t1\<rparr>)"
  using assms by (simp add: startTimer_def)

lemma updateTime_running:
  assumes "formatDiff (padValues S) (now_year env) (final_year env) (time - now_ms env) = pd"
    and "find_scan S pd 0 (None, t) = (hn, t1)"
    and "now_ms env < time"
    and "live_region pd hn t1 = t2"
    and "forEach_intervals S hn t2 = t3"
    and "show_remaining S time (time - now_ms env) False pd t3 = t4"
  shows "updateTime S time env t = Inr t4"
  using assms(3-6) by (simp add: updateTime_staged[OF assms(1,2)])




lemma three_days_without_days:
  "createTimer without_years_and_days (Some 259200000) 0 7
     \<lparr>now_ms = 0, now_year = 1970, final_year = 1970\<rparr> fresh_timer =
   Inr \<lparr>children = [Interval 3, TextNode '', '', Interval 4, TextNode '', '', Interval 5,
                    Interval 2],
        intervals =
          [\<lparr>className = ''years'', aria_label = ''years'', aria_hidden = Some ''true'',
            textContent = []\<rparr>,
           \<lparr>className = ''weeks'', aria_label = ''weeks'', aria_hidden = Some ''true'',
            textContent = []\<rparr>,
           \<lparr>className = ''days'', aria_label = ''3 days'', aria_hidden = None,
            textContent = ''3 days''\<rparr>,
           \<lparr>className = ''hours'', aria_label = ''0 hours'', aria_hidden = None,
            textContent = ''0 hours''\<rparr>,
           \<lparr>className = ''minutes'', aria_label = ''0 minutes'', aria_hidden = None,
            textContent = ''0 minutes''\<rparr>,
           \<lparr>className = ''seconds'', aria_label = ''0 seconds'', aria_hidden = Some ''true'',
            textContent = ''0 seconds''\<rparr>],
        aria_live = Some ''polite'', repeat = Initialized 7, active = [7], calls = [],
        console = []\<rparr>"
proof -
  define S where "S = without_years_and_days"
  define env where "env = \<lparr>now_ms = 0, now_year = 1970, final_year = 1970\<rparr>"
  define pd where "pd = [Num 0, Num 0, Num 3, Num 0, Num 0, Num 0]"
  define t0 where "t0 = (create_spans S (fresh_timer\<lparr>children := []\<rparr>))\<lparr>repeat := Uninitialized\<rparr>"
  define hid where "hid = (\<lambda>name. new_span name (Some ''true''))"
  define t1 where "t1 =
    \<lparr>children = [Interval 3, TextNode '', '', Interval 4, TextNode '', '', Interval 5],
     intervals = [hid ''years'', hid ''weeks'', new_span ''days'' None, new_span ''hours'' None,
                  new_span ''minutes'' None, hid ''seconds''],
     aria_live = None, repeat = Uninitialized, active = [], calls = [], console = []\<rparr>"
  define t2 where "t2 = t1\<lparr>aria_live := Some ''polite''\<rparr>"
  define t3 where "t3 = t2\<lparr>children :=
     [Interval 3, TextNode '', '', Interval 4, TextNode '', '', Interval 5, Interval 2]\<rparr>"
  define t4 where "t4 = t3\<lparr>intervals :=
     [hid ''years'', hid ''weeks'',
      \<lparr>className = ''days'', aria_label = ''3 days'', aria_hidden = None,
       textContent = ''3 days''\<rparr>,
      \<lparr>className = ''hours'', aria_label = ''0 hours'', aria_hidden = None,
       textContent = ''0 hours''\<rparr>,
      \<lparr>className = ''minutes'', aria_label = ''0 minutes'', aria_hidden = None,
       textContent = ''0 minutes''\<rparr>,
      \<lparr>className = ''seconds'', aria_label = ''0 seconds'', aria_hidden = Some ''true'',
       textContent = ''0 seconds''\<rparr>]\<rparr>"
  have s_pd: "formatDiff (padValues S) (now_year env) (final_year env)
                (259200000 - now_ms env) = pd"
    by (simp add: S_def without_years_and_days_def env_def pd_def defaults_def formatDiff_eval)
  have s_scan: "find_scan S pd 0 (None, t0) = (Some 2, t1)"
    by (simp add: S_def without_years_and_days_def pd_def t0_def t1_def hid_def create_spans_def
        fresh_timer_def defaults_def find_scan.simps(2) scan_callback_def dom_eval js_lt_def
        new_span_def Let_def)
  have s_now: "now_ms env < 259200000" by (simp add: env_def)
  have s_live: "live_region pd (Some 2) t1 = t2"
    by (simp add: live_region_def pd_def t1_def t2_def)
  have s_each: "forEach_intervals S (Some 2) t2 = t3"
    by (simp add: S_def without_years_and_days_def forEach_intervals_def forEach_callback_def
        t1_def t2_def t3_def dom_eval defaults_def)
  have s_show: "show_remaining S 259200000 (259200000 - now_ms env) False pd t3 = t4"
    by (simp add: S_def without_years_and_days_def show_remaining_def updateDisplay_def
        contains_def pd_def t1_def t2_def t3_def t4_def hid_def new_span_def defaults_def
        js_lt_def show_int_def show_nat.simps Let_def)
  have upd: "updateTime S 259200000 env t0 = Inr t4"
    by (rule updateTime_running[OF s_pd s_scan s_now s_live s_each s_show])
  have t0': "(create_spans S (fresh_timer\<lparr>children := []\<rparr>))\<lparr>repeat := Uninitialized\<rparr> = t0"
    by (simp add: t0_def)
  have "createTimer S (Some 259200000) 0 7 env fresh_timer =
        startTimer S 259200000 7 env (create_spans S (fresh_timer\<lparr>children := []\<rparr>))"
    by (rule createTimer_valid) (simp_all add: S_def without_years_and_days_def defaults_def)
  also have "\<dots> = Inr (t4\<lparr>repeat := Initialized 7, active := 7 # active t4\<rparr>)"
    by (rule startTimer_returns) (simp only: t0' upd)
  finally show ?thesis
    by (simp add: S_def env_def t4_def t3_def t2_def t1_def hid_def new_span_def)
qed

lemma two_minutes_padded:
  "createTimer (defaults\<lparr>padValues := True\<rparr>) (Some 120000) 0 7
     \<lparr>now_ms = 0, now_year = 1970, final_year = 1970\<rparr> fresh_timer =
   Inr \<lparr>children = [Interval 4, TextNode '', '', Interval 5],
        intervals =
          [\<lparr>className = ''years'', aria_label = ''years'', aria_hidden = Some ''true'',
            textContent = []\<rparr>,
           \<lparr>className = ''weeks'', aria_label = ''weeks'', aria_hidden = Some ''true'',
            textContent = []\<rparr>,
           \<lparr>className = ''days'', aria_label = ''days'', aria_hidden = Some ''true'',
            textContent = []\<rparr>,
           \<lparr>className = ''hours'', aria_label = ''hours'', aria_hidden = Some ''true'',
            textContent = []\<rparr>,
           \<lparr>className = ''minutes'', aria_label = ''02 minutes'', aria_hidden = None,
            textContent = ''02 minutes''\<rparr>,
           \<lparr>className = ''seconds'', aria_label = ''00 second'', aria_hidden = Some ''true'',
            textContent = ''00 second''\<rparr>],
        aria_live = Some ''off'', repeat = Initialized 7, active = [7], calls = [],
        console = []\<rparr>"
proof -
  define S where "S = defaults\<lparr>padValues := True\<rparr>"
  define env where "env = \<lparr>now_ms = 0, now_year = 1970, final_year = 1970\<rparr>"
  define pd where "pd = [Str ''00'', Str ''00'', Str ''00'', Str ''00'', Str ''02'', Str ''00'']"
  define t0 where "t0 = (create_spans S (fresh_timer\<lparr>children := []\<rparr>))\<lparr>repeat := Uninitialized\<rparr>"
  define hid where "hid = (\<lambda>name. new_span name (Some ''true''))"
  define t1 where "t1 =
    \<lparr>children = [Interval 4, TextNode '', '', Interval 5],
     intervals = [hid ''years'', hid ''weeks'', hid ''days'', hid ''hours'',
                  new_span ''minutes'' None, hid ''seconds''],
     aria_live = None, repeat = Uninitialized, active = [], calls = [], console = []\<rparr>"
  define t2 where "t2 = t1\<lparr>aria_live := Some ''off''\<rparr>"
  define t4 where "t4 = t2\<lparr>intervals :=
     [hid ''years'', hid ''weeks'', hid ''days'', hid ''hours'',
      \<lparr>className = ''minutes'', aria_label = ''02 minutes'', aria_hidden = None,
       textContent = ''02 minutes''\<rparr>,
      \<lparr>className = ''seconds'', aria_label = ''00 second'', aria_hidden = Some ''true'',
       textContent = ''00 second''\<rparr>]\<rparr>"
  have s_pd: "formatDiff (padValues S) (now_year env) (final_year env)
                (120000 - now_ms env) = pd"
    by (simp add: S_def env_def pd_def defaults_def formatDiff_eval show_int_def show_nat.simps)
  have s_scan: "find_scan S pd 0 (None, t0) = (Some 4, t1)"
    by (simp add: S_def pd_def t0_def t1_def hid_def create_spans_def fresh_timer_def defaults_def
        find_scan.simps(2) scan_callback_def dom_eval js_lt_def new_span_def Let_def
        is_digit_def digits_value_def)
  have s_now: "now_ms env < 120000" by (simp add: env_def)
  have s_live: "live_region pd (Some 4) t1 = t2"
    by (simp add: live_region_def pd_def t1_def t2_def)
  have s_each: "forEach_intervals S (Some 4) t2 = t2"
    by (simp add: S_def forEach_intervals_def forEach_callback_def t1_def t2_def dom_eval
        defaults_def)
  have s_show: "show_remaining S 120000 (120000 - now_ms env) False pd t2 = t4"
    by (simp add: S_def show_remaining_def updateDisplay_def contains_def pd_def t1_def t2_def
        t4_def hid_def new_span_def defaults_def js_lt_def is_digit_def digits_value_def Let_def)
  have upd: "updateTime S 120000 env t0 = Inr t4"
    by (rule updateTime_running[OF s_pd s_scan s_now s_live s_each s_show])
  have t0': "(create_spans S (fresh_timer\<lparr>children := []\<rparr>))\<lparr>repeat := Uninitialized\<rparr> = t0"
    by (simp add: t0_def)
  have "createTimer S (Some 120000) 0 7 env fresh_timer =
        startTimer S 120000 7 env (create_spans S (fresh_timer\<lparr>children := []\<rparr>))"
    by (rule createTimer_valid) (simp_all add: S_def defaults_def)
  also have "\<dots> = Inr (t4\<lparr>repeat := Initialized 7, active := 7 # active t4\<rparr>)"
    by (rule startTimer_returns) (simp only: t0' upd)
  finally show ?thesis
    by (simp add: S_def env_def t4_def t2_def t1_def hid_def new_span_def)
qed

section \<open>A unit that is not allowed\<close>

text \<open>
  Claim C2 says that the scan considers only the allowed units and that a unit with
  \<open>allowed = false\<close> never becomes the highest non-zero unit and is never marked hidden.
  \<open>createElements\<close> leaves such a unit out of the timer, but \<open>updateTime\<close> does not read
  \<open>allowed\<close>: with years and days not allowed and three days left, the days unit is the
  highest non-zero unit, its span is appended to the timer after the seconds span and shows
  "3 days", and the years span is marked hidden.
\<close>

theorem disallowed_unit_displayed:
  "\<not> allowed (days without_years_and_days) \<and> \<not> allowed (years without_years_and_days) \<and>
   Interval 2 \<notin> set (children (create_spans without_years_and_days
                                   (fresh_timer\<lparr>children := []\<rparr>))) \<and>
   formatDiff (padValues without_years_and_days) 1970 1970 259200000 =
     [Num 0, Num 0, Num 3, Num 0, Num 0, Num 0] \<and>
   fst (find_scan without_years_and_days [Num 0, Num 0, Num 3, Num 0, Num 0, Num 0] 0
         (None, create_spans without_years_and_days (fresh_timer\<lparr>children := []\<rparr>))) = Some 2 \<and>
   children (final_state (createTimer without_years_and_days (Some 259200000) 0 7
     \<lparr>now_ms = 0, now_year = 1970, final_year = 1970\<rparr> fresh_timer)) =
     [Interval 3, TextNode '', '', Interval 4, TextNode '', '', Interval 5, Interval 2] \<and>
   textContent (intervals (final_state (createTimer without_years_and_days (Some 259200000) 0 7
     \<lparr>now_ms = 0, now_year = 1970, final_year = 1970\<rparr> fresh_timer)) ! 2) = ''3 days'' \<and>
   aria_hidden (intervals (final_state (createTimer without_years_and_days (Some 259200000) 0 7
     \<lparr>now_ms = 0, now_year = 1970, final_year = 1970\<rparr> fresh_timer)) ! 0) = Some ''true''"
proof -
  let ?S = without_years_and_days
  have a: "\<not> allowed (days ?S) \<and> \<not> allowed (years ?S)"
    by (simp add: without_years_and_days_def)
  have b: "Interval 2 \<notin> set (children (create_spans ?S (fresh_timer\<lparr>children := []\<rparr>)))"
    by (simp add: create_spans_def without_years_and_days_def defaults_def fresh_timer_def Let_def)
  have c: "formatDiff (padValues ?S) 1970 1970 259200000 =
             [Num 0, Num 0, Num 3, Num 0, Num 0, Num 0]"
    by (simp add: without_years_and_days_def defaults_def formatDiff_eval)
  have d: "fst (find_scan ?S [Num 0, Num 0, Num 3, Num 0, Num 0, Num 0] 0
         (None, create_spans ?S (fresh_timer\<lparr>children := []\<rparr>))) = Some 2"
    by (simp add: find_scan_highest js_lt_def)
  from a b c d show ?thesis by (simp add: three_days_without_days)
qed

section \<open>Padded values in the comparisons with zero\<close>

text \<open>
  Claim C5 says that, when the highest non-zero unit is not the seconds unit, the live
  region is "polite" exactly when the seconds value is 0, for every setting of
  \<open>padValues\<close>. With \<open>padValues\<close> set and two minutes left, the seconds value is the string
  "00", which is not strictly equal to the number 0, and the live region is "off".
\<close>

theorem padded_zero_seconds_not_announced:
  "formatDiff True 1970 1970 120000 =
     [Str ''00'', Str ''00'', Str ''00'', Str ''00'', Str ''02'', Str ''00''] \<and>
   to_number (formatDiff True 1970 1970 120000 ! 5) = Some 0 \<and>
   aria_live (final_state (createTimer (defaults\<lparr>padValues := True\<rparr>) (Some 120000) 0 7
     \<lparr>now_ms = 0, now_year = 1970, final_year = 1970\<rparr> fresh_timer)) = Some ''off''"
proof -
  have pd: "formatDiff True 1970 1970 120000 =
     [Str ''00'', Str ''00'', Str ''00'', Str ''00'', Str ''02'', Str ''00'']"
    by (simp add: formatDiff_eval show_int_def show_nat.simps)
  have "to_number (Str ''00'') = Some 0" by (simp add: is_digit_def digits_value_def)
  then show ?thesis by (simp add: pd two_minutes_padded)
qed

text \<open>
  Claim C6 says that a unit whose value is 0 gets the plural label, also when the value was
  padded. In the same run the seconds span shows the padded zero with the singular label.
\<close>

theorem padded_zero_takes_singular_label:
  "pad True 0 = Str ''00'' \<and>
   plural (seconds (defaults\<lparr>padValues := True\<rparr>)) = ''seconds'' \<and>
   textContent (intervals (final_state (createTimer (defaults\<lparr>padValues := True\<rparr>)
     (Some 120000) 0 7 \<lparr>now_ms = 0, now_year = 1970, final_year = 1970\<rparr> fresh_timer)) ! 5) =
     ''00 second''"
proof -
  have "pad True 0 = Str ''00''" by (simp add: pad_def show_int_def show_nat.simps)
  moreover have "plural (seconds (defaults\<lparr>padValues := True\<rparr>)) = ''seconds''"
    by (simp add: defaults_def)
  ultimately show ?thesis by (simp add: two_minutes_padded)
qed

section \<open>The aria-hidden attribute of the seconds span\<close>




section \<open>Labels, the live region and the display of zero\<close>

text \<open>
  A value that is a number takes the plural label when it is greater than 1 or equal to 0,
  and the singular label otherwise.
\<close>

lemma updateDisplay_number_label:
  assumes "contains t index" "index < length (intervals t)"
  shows "textContent (intervals (updateDisplay index (Num n) l t) ! index) =
           show_int n @ '' '' @ (if 1 < n \<or> n = 0 then plural l else singular l)"
  using assms by (simp add: updateDisplay_def Let_def js_lt_def)

text \<open>
  The live region after an update: "polite" when the highest non-zero unit is the last
  span or the seconds value is strictly equal to the number 0, "off" otherwise.
\<close>

lemma show_zero_and_stop_aria_live [simp]:
  "aria_live (final_state (show_zero_and_stop S time t)) = aria_live t"
  by (simp add: show_zero_and_stop_def Let_def split: binding.split)

lemma live_region_policy:
  assumes "formatDiff (padValues S) (now_year env) (final_year env) (time - now_ms env) = pd"
    and "find_scan S pd 0 (None, t) = (hn, t1)"
  shows "aria_live (final_state (updateTime S time env t)) =
           Some (if hn = Some (length (intervals t) - 1) \<or> js_strict_eq 0 (pd ! 5)
                 then ''polite'' else ''off'')"
proof -
  have len: "length (intervals t1) = length (intervals t)"
    using find_scan_intervals[OF assms(2), of 0] by simp
  have "aria_live (final_state (updateTime S time env t)) = aria_live (live_region pd hn t1)"
    by (simp add: updateTime_staged[OF assms])
  also have "\<dots> = Some (if hn = Some (length (intervals t) - 1) \<or> js_strict_eq 0 (pd ! 5)
                 then ''polite'' else ''off'')"
    by (simp add: live_region_def len)
  finally show ?thesis .
qed

text \<open>
  In the branch for a difference of zero or less, every span that the timer contains shows
  0 with the plural label of its unit, whether the branch returns or raises.
\<close>

lemma show_zero_display:
  assumes "length (intervals t) = 6"
  shows "contains t 0 \<longrightarrow>
           textContent (intervals (final_state (show_zero_and_stop S time t)) ! 0) =
             ''0 '' @ plural (years S)"
    and "contains t 1 \<longrightarrow>
           textContent (intervals (final_state (show_zero_and_stop S time t)) ! 1) =
             ''0 '' @ plural (weeks S)"
    and "contains t 2 \<longrightarrow>
           textContent (intervals (final_state (show_zero_and_stop S time t)) ! 2) =
             ''0 '' @ plural (days S)"
    and "contains t 3 \<longrightarrow>
           textContent (intervals (final_state (show_zero_and_stop S time t)) ! 3) =
             ''0 '' @ plural (hours S)"
    and "contains t 4 \<longrightarrow>
           textContent (intervals (final_state (show_zero_and_stop S time t)) ! 4) =
             ''0 '' @ plural (minutes S)"
    and "contains t 5 \<longrightarrow>
           textContent (intervals (final_state (show_zero_and_stop S time t)) ! 5) =
             ''0 '' @ plural (seconds S)"
proof -
  have zero: "updateDisplay i (Num 0) l u =
      (if contains u i
       then u\<lparr>intervals := (intervals u)[i := (intervals u ! i)
               \<lparr>aria_label := ''0 '' @ plural l, textContent := ''0 '' @ plural l\<rparr>]\<rparr>
       else u)" for i l u
    by (simp add: updateDisplay_def Let_def show_int_def show_nat.simps)
  have c: "contains (u\<lparr>intervals := xs\<rparr>) i = contains u i" for u xs i
    by (simp add: contains_def)
  define t4 where "t4 = updateDisplay 5 (Num 0) (seconds S)
                (updateDisplay 4 (Num 0) (minutes S)
                  (updateDisplay 3 (Num 0) (hours S)
                    (updateDisplay 2 (Num 0) (days S)
                      (updateDisplay 1 (Num 0) (weeks S)
                        (updateDisplay 0 (Num 0) (years S) t)))))"
  have fs: "intervals (final_state (show_zero_and_stop S time t)) = intervals t4"
    by (simp add: show_zero_and_stop_def Let_def t4_def split: binding.split)
  show "contains t 0 \<longrightarrow>
           textContent (intervals (final_state (show_zero_and_stop S time t)) ! 0) =
             ''0 '' @ plural (years S)"
    unfolding fs t4_def using assms by (simp add: zero c)
  show "contains t 1 \<longrightarrow>
           textContent (intervals (final_state (show_zero_and_stop S time t)) ! 1) =
             ''0 '' @ plural (weeks S)"
    unfolding fs t4_def using assms by (simp add: zero c)
  show "contains t 2 \<longrightarrow>
           textContent (intervals (final_state (show_zero_and_stop S time t)) ! 2) =
             ''0 '' @ plural (days S)"
    unfolding fs t4_def using assms by (simp add: zero c)
  show "contains t 3 \<longrightarrow>
           textContent (intervals (final_state (show_zero_and_stop S time t)) ! 3) =
             ''0 '' @ plural (hours S)"
    unfolding fs t4_def using assms by (simp add: zero c)
  show "contains t 4 \<longrightarrow>
           textContent (intervals (final_state (show_zero_and_stop S time t)) ! 4) =
             ''0 '' @ plural (minutes S)"
    unfolding fs t4_def using assms by (simp add: zero c)
  show "contains t 5 \<longrightarrow>
           textContent (intervals (final_state (show_zero_and_stop S time t)) ! 5) =
             ''0 '' @ plural (seconds S)"
    unfolding fs t4_def using assms by (simp add: zero c)
qed

end
